theory Spec2Isabelle
  imports Complex_Main "HOL-Library.AList" "HOL-Library.Char_ord" "HOL-Library.List_Lexorder"
begin

section \<open>Conventions of the embedding\<close>

text \<open>
  The program is Python. Its \<open>float\<close> quantities are rationals. For amounts, capacities
  and timestamps the arithmetic is exact. In the difficulty control, where the rounding of
  a sum or a quotient decides which branch is taken, every float operation rounds its exact
  result to the nearest double (\<open>round_double\<close> below). Python \<open>int\<close> is
  \<^typ>\<open>int\<close>. A \<open>dict\<close> whose iteration order or size the code reads is an association
  list maintained with \<^const>\<open>AList.update\<close> (assignment to an existing key keeps its
  position, a new key goes last, as in Python); a \<open>dict\<close> that is only looked up and
  assigned is a map. Calls of \<open>time.time()\<close> become an explicit argument \<open>now\<close>.
  \<open>hashlib.sha256(...).hexdigest()\<close>, \<open>json.dumps\<close>, the generator behind
  \<open>random.seed\<close>/\<open>random.choice\<close> and the builtin \<open>sum\<close> on floats are library code: they
  are arguments of the functions that call them, so every theorem holds for whatever these
  functions compute.
\<close>

datatype py_error = ValueError | KeyError | IndexError

text \<open>Python's \<open>int(x)\<close> on a float truncates towards zero.\<close>

definition py_int :: "rat \<Rightarrow> int" where
  "py_int x = (if x < 0 then \<lceil>x\<rceil> else \<lfloor>x\<rfloor>)"

section \<open>core.py: transactions, blocks and the ledger\<close>

datatype TransactionType =
  TRANSFER | STAKE_DEPOSIT | STAKE_WITHDRAW | STORAGE_PLEDGE | STORAGE_REVOKE | GOVERNANCE_VOTE

text \<open>
  The \<open>data\<close> dict of a transaction: the two keys the ledger reads
  (\<open>'capacity_gb'\<close>, \<open>'proof_hash'\<close>; \<open>None\<close> when the key is absent) and the other entries.
\<close>

record tx_data =
  data_capacity_gb :: "rat option"
  data_proof_hash :: "string option"
  data_other :: "(string \<times> string) list"

record Transaction =
  tx_id :: string
  tx_timestamp :: rat
  sender :: string
  receiver :: string
  amount :: rat
  tx_type :: TransactionType
  tx_nonce :: int
  signature :: "string option"
  data :: tx_data

record StoragePledge =
  pledger :: string
  capacity_gb :: rat
  pledge_timestamp :: rat
  proof_hash :: "string option"
  challenge_response :: "string option"
  pledge_is_active :: bool

record PoSStake =
  validator :: string
  stake_amount :: rat
  lock_time :: int
  stake_timestamp :: rat
  delegated_from :: "string option"
  stake_is_active :: bool

record Block =
  index :: int
  previous_hash :: string
  timestamp :: rat
  transactions :: "Transaction list"
  miner :: string
  validators :: "string list"
  poc_difficulty :: int
  pow_lottery_winner :: "string option"
  nonce :: int
  merkle_root :: string
  state_root :: "string option"
  hash :: string

text \<open>\<open>Transaction.create_genesis_tx\<close>\<close>

definition create_genesis_tx :: "rat \<Rightarrow> Transaction" where
  "create_genesis_tx now =
     \<lparr>tx_id = ''GENESIS_SIMCOIN'', tx_timestamp = now, sender = ''SYSTEM'',
      receiver = ''FCU_TREASURY'', amount = 1000000, tx_type = TRANSFER, tx_nonce = 0,
      signature = None,
      data = \<lparr>data_capacity_gb = None, data_proof_hash = None,
               data_other = [(''note'', ''Genesis - Simcoin donation to FCU Treasury'')]\<rparr>\<rparr>"

text \<open>
  \<open>Transaction.hash\<close>: \<open>sha\<close> is \<open>hashlib.sha256(s.encode()).hexdigest()\<close> and \<open>dumps_tx\<close> is
  \<open>json.dumps(tx.to_dict(), sort_keys=True, default=str)\<close>.
\<close>

definition tx_hash :: "(string \<Rightarrow> string) \<Rightarrow> (Transaction \<Rightarrow> string) \<Rightarrow> Transaction \<Rightarrow> string" where
  "tx_hash sha dumps_tx tx = sha (dumps_tx tx)"

text \<open>
  One round of the loop of \<open>Block.calculate_merkle_root\<close>: an odd list gets its last
  hash once more, then neighbours are hashed in pairs.
\<close>

fun merkle_level :: "(string \<Rightarrow> string) \<Rightarrow> string list \<Rightarrow> string list" where
  "merkle_level sha (a # b # rest) = sha (a @ b) # merkle_level sha rest"
| "merkle_level sha [a] = [sha (a @ a)]"
| "merkle_level sha [] = []"

lemma length_merkle_level: "length (merkle_level sha hs) = (length hs + 1) div 2"
  by (induction sha hs rule: merkle_level.induct) simp_all

text \<open>
  \<open>while len(tx_hashes) > 1\<close>, then \<open>tx_hashes[0]\<close>. The loop is entered with one hash per
  transaction of a non-empty list, so the empty case is never reached.
\<close>

function merkle_loop :: "(string \<Rightarrow> string) \<Rightarrow> string list \<Rightarrow> string" where
  "merkle_loop sha [] = []"
| "merkle_loop sha [h] = h"
| "merkle_loop sha (a # b # rest) = merkle_loop sha (merkle_level sha (a # b # rest))"
  by pat_completeness auto
termination
  by (relation "measure (\<lambda>(sha, hs). length hs)") (simp_all add: length_merkle_level)

definition calculate_merkle_root ::
  "(string \<Rightarrow> string) \<Rightarrow> (Transaction \<Rightarrow> string) \<Rightarrow> Transaction list \<Rightarrow> string" where
  "calculate_merkle_root sha dumps_tx txs =
     (if txs = [] then sha [] else merkle_loop sha (map (tx_hash sha dumps_tx) txs))"

text \<open>The dict \<open>block_data\<close> that \<open>Block.calculate_hash\<close> serialises, field by field.\<close>

type_synonym block_data =
  "int \<times> string \<times> rat \<times> string \<times> string \<times> string list \<times> int \<times> int \<times> string option"

definition block_data_of :: "Block \<Rightarrow> block_data" where
  "block_data_of b =
     (index b, previous_hash b, timestamp b, merkle_root b, miner b, sort (validators b),
      poc_difficulty b, nonce b, state_root b)"

text \<open>
  \<open>Block.calculate_hash\<close>: \<open>dumps_block\<close> is \<open>json.dumps(block_data, sort_keys=True,
  default=str)\<close>.
\<close>

definition calculate_hash :: "(string \<Rightarrow> string) \<Rightarrow> (block_data \<Rightarrow> string) \<Rightarrow> Block \<Rightarrow> string" where
  "calculate_hash sha dumps_block b = sha (dumps_block (block_data_of b))"

text \<open>
  \<open>Block.__init__\<close>. The arguments are those of the constructor, in its order;
  \<open>merkle_root or ...\<close> computes the root when the argument is \<open>None\<close> or the empty string.
\<close>

definition Block_init ::
  "(string \<Rightarrow> string) \<Rightarrow> (Transaction \<Rightarrow> string) \<Rightarrow> (block_data \<Rightarrow> string) \<Rightarrow>
   int \<Rightarrow> string \<Rightarrow> rat \<Rightarrow> Transaction list \<Rightarrow> string \<Rightarrow> string list \<Rightarrow> int \<Rightarrow>
   string option \<Rightarrow> int \<Rightarrow> string option \<Rightarrow> string option \<Rightarrow> Block" where
  "Block_init sha dumps_tx dumps_block idx prev ts txs mnr vals difficulty winner nnc mroot sroot =
     (let b = \<lparr>index = idx, previous_hash = prev, timestamp = ts, transactions = txs,
               miner = mnr, validators = vals, poc_difficulty = difficulty,
               pow_lottery_winner = winner, nonce = nnc,
               merkle_root =
                 (case mroot of
                    None \<Rightarrow> calculate_merkle_root sha dumps_tx txs
                  | Some m \<Rightarrow> if m = [] then calculate_merkle_root sha dumps_tx txs else m),
               state_root = sroot, hash = []\<rparr>
      in b\<lparr>hash := calculate_hash sha dumps_block b\<rparr>)"

record Blockchain =
  chain_id :: string
  chain :: "Block list"
  state :: "string \<rightharpoonup> rat"
  storage_pledges :: "string \<rightharpoonup> StoragePledge"
  pos_stakes :: "string \<rightharpoonup> PoSStake list"
  pending_transactions :: "Transaction list"

text \<open>
  \<open>Blockchain.__init__\<close> with \<open>_create_genesis_block\<close>; \<open>now\<close> is the time of construction.
  The table \<open>pow_lottery_entries\<close> is never read or written by the ledger and is left out.
\<close>

definition Blockchain_init ::
  "(string \<Rightarrow> string) \<Rightarrow> (Transaction \<Rightarrow> string) \<Rightarrow> (block_data \<Rightarrow> string) \<Rightarrow>
   rat \<Rightarrow> string \<Rightarrow> Blockchain" where
  "Blockchain_init sha dumps_tx dumps_block now cid =
     (let genesis_tx = create_genesis_tx now;
          genesis_block =
            Block_init sha dumps_tx dumps_block 0 ''0'' now [genesis_tx] ''GENESIS_SYSTEM''
              [''GENESIS_SYSTEM''] 1 None 0 None None
      in \<lparr>chain_id = cid, chain = [genesis_block],
          state = [receiver genesis_tx \<mapsto> amount genesis_tx],
          storage_pledges = Map.empty, pos_stakes = Map.empty, pending_transactions = []\<rparr>)"

definition get_balance :: "Blockchain \<Rightarrow> string \<Rightarrow> rat" where
  "get_balance bc address = (case state bc address of None \<Rightarrow> 0 | Some b \<Rightarrow> b)"

text \<open>\<open>Blockchain.add_transaction\<close>: the returned flag and the ledger afterwards.\<close>

definition add_transaction :: "Blockchain \<Rightarrow> Transaction \<Rightarrow> bool \<times> Blockchain" where
  "add_transaction bc tx =
     (if get_balance bc (sender tx) \<ge> amount tx
      then (True, bc\<lparr>pending_transactions := pending_transactions bc @ [tx]\<rparr>)
      else (False, bc))"

text \<open>
  The body of the loop of \<open>Blockchain.process_transactions\<close>. In a transfer the receiver's
  balance is read after the sender's has been written, as in the source.
\<close>

definition apply_transaction :: "rat \<Rightarrow> Blockchain \<Rightarrow> Transaction \<Rightarrow> Blockchain" where
  "apply_transaction now bc tx =
     (if tx_type tx = TRANSFER then
        (let sender_bal = get_balance bc (sender tx) in
         if sender_bal \<ge> amount tx then
           (let bc1 = bc\<lparr>state := (state bc)(sender tx \<mapsto> sender_bal - amount tx)\<rparr>
            in bc1\<lparr>state := (state bc1)(receiver tx \<mapsto> get_balance bc1 (receiver tx) + amount tx)\<rparr>)
         else bc)
      else if tx_type tx = STAKE_DEPOSIT then
        (let stake = \<lparr>validator = sender tx, stake_amount = amount tx, lock_time = 0,
                      stake_timestamp = now, delegated_from = None, stake_is_active = True\<rparr>;
             bc1 = (case pos_stakes bc (sender tx) of
                      Some stakes \<Rightarrow> bc\<lparr>pos_stakes := (pos_stakes bc)(sender tx \<mapsto> stakes @ [stake])\<rparr>
                    | None \<Rightarrow> bc\<lparr>pos_stakes := (pos_stakes bc)(sender tx \<mapsto> [stake])\<rparr>)
         in bc1\<lparr>state := (state bc1)(sender tx \<mapsto> get_balance bc1 (sender tx) - amount tx)\<rparr>)
      else if tx_type tx = STORAGE_PLEDGE then
        bc\<lparr>storage_pledges := (storage_pledges bc)(sender tx \<mapsto>
             \<lparr>pledger = sender tx,
              capacity_gb = (case data_capacity_gb (data tx) of None \<Rightarrow> 32 | Some c \<Rightarrow> c),
              pledge_timestamp = now,
              proof_hash = data_proof_hash (data tx),
              challenge_response = None,
              pledge_is_active = True\<rparr>)\<rparr>
      else bc)"

fun process_transactions :: "rat \<Rightarrow> Blockchain \<Rightarrow> Transaction list \<Rightarrow> Blockchain" where
  "process_transactions now bc [] = bc"
| "process_transactions now bc (tx # txs) =
     process_transactions now (apply_transaction now bc tx) txs"

text \<open>
  \<open>Blockchain.validate_chain\<close>: for every \<open>i\<close> in \<open>range(1, len(chain))\<close> the stored hash of
  block \<open>i\<close> is its recomputed hash and its \<open>previous_hash\<close> is the stored hash of block
  \<open>i - 1\<close>; the first failing check returns \<open>False\<close>.
\<close>

definition block_ok :: "(string \<Rightarrow> string) \<Rightarrow> (block_data \<Rightarrow> string) \<Rightarrow> Block list \<Rightarrow> nat \<Rightarrow> bool" where
  "block_ok sha dumps_block c i =
     (if hash (c ! i) \<noteq> calculate_hash sha dumps_block (c ! i) then False
      else if previous_hash (c ! i) \<noteq> hash (c ! (i - 1)) then False
      else True)"

definition validate_chain :: "(string \<Rightarrow> string) \<Rightarrow> (block_data \<Rightarrow> string) \<Rightarrow> Blockchain \<Rightarrow> bool" where
  "validate_chain sha dumps_block bc =
     list_all (block_ok sha dumps_block (chain bc)) [1..<length (chain bc)]"

text \<open>
  How a block gets onto the chain (\<open>PoCMinerNode.mine_block\<close> in node.py): it is constructed
  on the latest block, with the next index and the latest block's stored hash, and appended.
  \<open>get_latest_block\<close> is \<open>self.chain[-1]\<close>, which raises on an empty chain.
\<close>

definition get_latest_block :: "Blockchain \<Rightarrow> py_error + Block" where
  "get_latest_block bc = (if chain bc = [] then Inl IndexError else Inr (last (chain bc)))"

definition append_mined_block ::
  "(string \<Rightarrow> string) \<Rightarrow> (Transaction \<Rightarrow> string) \<Rightarrow> (block_data \<Rightarrow> string) \<Rightarrow>
   Blockchain \<Rightarrow> rat \<Rightarrow> Transaction list \<Rightarrow> string \<Rightarrow> int \<Rightarrow> int \<Rightarrow> py_error + Blockchain" where
  "append_mined_block sha dumps_tx dumps_block bc now txs miner_id difficulty nnc =
     (case get_latest_block bc of
        Inl e \<Rightarrow> Inl e
      | Inr latest_block \<Rightarrow>
          let new_block =
                Block_init sha dumps_tx dumps_block (index latest_block + 1) (hash latest_block)
                  now txs miner_id [] difficulty None nnc None None
          in Inr (bc\<lparr>chain := chain bc @ [new_block]\<rparr>))"

section \<open>consensus.py: difficulty control\<close>

text \<open>
  Doubles. \<open>round_double x\<close> is the double nearest to \<open>x\<close>: 53 significant bits, ties to
  the even significand. The exponent is not bounded: overflow and subnormal numbers are not
  modelled (block times are far from both).
\<close>

function bit_length :: "int \<Rightarrow> int" where
  "bit_length n = (if n \<le> 0 then 0 else 1 + bit_length (n div 2))"
  by pat_completeness auto
termination
  by (relation "measure (\<lambda>n. nat n)") simp_all

declare bit_length.simps [simp del]

text \<open>For \<open>x > 0\<close>, the integer \<open>k\<close> with \<open>2^k \<le> x < 2^(k+1)\<close>.\<close>

definition floor_log2 :: "rat \<Rightarrow> int" where
  "floor_log2 x =
     (if x \<ge> 1 then bit_length \<lfloor>x\<rfloor> - 1
      else - bit_length (\<lceil>1 / x\<rceil> - 1))"

definition round_half_even :: "rat \<Rightarrow> int" where
  "round_half_even x =
     (let f = \<lfloor>x\<rfloor>; r = x - of_int f in
      if r < 1 / 2 then f
      else if r > 1 / 2 then f + 1
      else if even f then f else f + 1)"

definition scale2 :: "int \<Rightarrow> rat" where
  "scale2 e = (if e \<ge> 0 then 2 ^ nat e else 1 / 2 ^ nat (- e))"

definition round_double :: "rat \<Rightarrow> rat" where
  "round_double x =
     (if x = 0 then 0
      else
        let a = \<bar>x\<bar>;
            e = floor_log2 a - 52;
            m = round_half_even (a / scale2 e)
        in (if x < 0 then - 1 else 1) * of_int m * scale2 e)"

text \<open>The float operations \<open>x + y\<close>, \<open>x * y\<close>, \<open>x / y\<close> and a float literal.\<close>

definition float_add :: "rat \<Rightarrow> rat \<Rightarrow> rat" where
  "float_add x y = round_double (x + y)"

definition float_mul :: "rat \<Rightarrow> rat \<Rightarrow> rat" where
  "float_mul x y = round_double (x * y)"

definition float_div :: "rat \<Rightarrow> rat \<Rightarrow> rat" where
  "float_div x y = round_double (x / y)"

definition float_literal :: "rat \<Rightarrow> rat" where
  "float_literal x = round_double x"

text \<open>
  The builtin \<open>sum\<close> on a list of floats is an argument of the model. One instance is the
  summation from left to right, starting from 0, that CPython performs up to version 3.11
  (later versions add a compensation term).
\<close>

fun sum_from :: "rat \<Rightarrow> rat list \<Rightarrow> rat" where
  "sum_from acc [] = acc"
| "sum_from acc (x # xs) = sum_from (float_add acc x) xs"

definition left_to_right_sum :: "rat list \<Rightarrow> rat" where
  "left_to_right_sum xs = sum_from 0 xs"

definition INITIAL_DIFFICULTY :: int where
  "INITIAL_DIFFICULTY = 4"

definition TARGET_BLOCK_TIME :: rat where
  "TARGET_BLOCK_TIME = 45 / 2"

definition DIFFICULTY_ADJUSTMENT_BLOCKS :: nat where
  "DIFFICULTY_ADJUSTMENT_BLOCKS = 50"

text \<open>
  \<open>PoCDifficulty.calculate_new_difficulty\<close>; \<open>float_sum\<close> is the builtin \<open>sum\<close>. The
  length of the list is converted to a float without rounding, and the third argument is
  unused by the source.
\<close>

definition calculate_new_difficulty ::
  "(rat list \<Rightarrow> rat) \<Rightarrow> int \<Rightarrow> rat list \<Rightarrow> rat \<Rightarrow> int" where
  "calculate_new_difficulty float_sum current_difficulty actual_block_times network_capacity_gb =
     (if length actual_block_times < 2 then current_difficulty
      else
        let avg_time =
              float_div (float_sum actual_block_times) (of_nat (length actual_block_times))
        in
        if avg_time < float_mul TARGET_BLOCK_TIME (float_literal (8 / 10))
        then min (current_difficulty + 1) 32
        else if avg_time > float_mul TARGET_BLOCK_TIME (float_literal (12 / 10))
        then max (current_difficulty - 1) 1
        else current_difficulty)"

text \<open>\<open>PoCMiner.__init__\<close>: the miner's capacity is raised to the minimum of 32 GB.\<close>

record PoCMiner =
  miner_id :: string
  storage_capacity_gb :: rat
  total_blocks_mined :: int
  last_mine_time :: rat

definition PoCMiner_init :: "rat \<Rightarrow> string \<Rightarrow> rat \<Rightarrow> PoCMiner" where
  "PoCMiner_init now mid capacity =
     \<lparr>miner_id = mid, storage_capacity_gb = max 32 capacity, total_blocks_mined = 0,
      last_mine_time = now\<rparr>"

section \<open>consensus.py: the lottery\<close>

record Participant =
  storage_gb :: rat
  entries :: int
  wins :: int
  last_entry_block :: int

record PoWLottery =
  block_time :: int
  lottery_difficulty :: int
  participants :: "(string \<times> Participant) list"
  winners :: "string list"

text \<open>\<open>PoWLottery.__init__\<close>\<close>

definition PoWLottery_init :: "int \<Rightarrow> PoWLottery" where
  "PoWLottery_init bt =
     \<lparr>block_time = bt, lottery_difficulty = 4, participants = [], winners = []\<rparr>"

definition register_participant :: "PoWLottery \<Rightarrow> string \<Rightarrow> rat \<Rightarrow> PoWLottery" where
  "register_participant l participant_id sg =
     l\<lparr>participants :=
         AList.update participant_id
           \<lparr>storage_gb = sg, entries = 0, wins = 0, last_entry_block = 0\<rparr>
           (participants l)\<rparr>"

text \<open>The ticket count of a capacity: \<open>max(1, int(capacity / 32.0))\<close>.\<close>

definition tickets_for :: "rat \<Rightarrow> int" where
  "tickets_for capacity = max 1 (py_int (capacity / 32))"

definition add_lottery_ticket :: "PoWLottery \<Rightarrow> string \<Rightarrow> int \<Rightarrow> int \<times> PoWLottery" where
  "add_lottery_ticket l participant_id block_height =
     (case map_of (participants l) participant_id of
        None \<Rightarrow> (0, l)
      | Some d \<Rightarrow>
          let tickets = tickets_for (storage_gb d) in
          (tickets,
           l\<lparr>participants :=
               AList.update participant_id
                 (d\<lparr>entries := entries d + tickets, last_entry_block := block_height\<rparr>)
                 (participants l)\<rparr>))"

text \<open>\<open>int(s, 16)\<close> on a string of hexadecimal digits; anything else raises \<open>ValueError\<close>.\<close>

definition hex_digit :: "char \<Rightarrow> nat option" where
  "hex_digit c =
     (let n = of_char c :: nat in
      if 48 \<le> n \<and> n \<le> 57 then Some (n - 48)
      else if 97 \<le> n \<and> n \<le> 102 then Some (n - 87)
      else if 65 \<le> n \<and> n \<le> 70 then Some (n - 55)
      else None)"

fun int_base16_acc :: "nat \<Rightarrow> string \<Rightarrow> nat option" where
  "int_base16_acc acc [] = Some acc"
| "int_base16_acc acc (c # cs) =
     (case hex_digit c of
        None \<Rightarrow> None
      | Some v \<Rightarrow> int_base16_acc (16 * acc + v) cs)"

definition int_base16 :: "string \<Rightarrow> nat option" where
  "int_base16 s = (if s = [] then None else int_base16_acc 0 s)"

text \<open>The weighted pool: every participant, in the order of the dict, repeated once per ticket.\<close>

definition build_pool :: "(string \<times> Participant) list \<Rightarrow> string list" where
  "build_pool ps =
     concat (map (\<lambda>(participant_id, d).
       replicate (nat (tickets_for (storage_gb d))) participant_id) ps)"

text \<open>
  \<open>PoWLottery.select_winner\<close>. \<open>sha\<close> is \<open>hashlib.sha256(s.encode()).hexdigest()\<close> and
  \<open>choice seed pool\<close> is the value of \<open>random.choice(pool)\<close> right after
  \<open>random.seed(seed)\<close>. The block height is unused by the source.
\<close>

definition select_winner ::
  "(string \<Rightarrow> string) \<Rightarrow> (nat \<Rightarrow> string list \<Rightarrow> string) \<Rightarrow>
   PoWLottery \<Rightarrow> string \<Rightarrow> int \<Rightarrow> py_error + (string option \<times> PoWLottery)" where
  "select_winner sha choice l block_hash block_height =
     (if participants l = [] then Inr (None, l)
      else
        case int_base16 (take 16 (sha block_hash)) of
          None \<Rightarrow> Inl ValueError
        | Some seed \<Rightarrow>
            let pool = build_pool (participants l) in
            if pool = [] then Inr (None, l)
            else
              let winner = choice seed pool;
                  ws = (if winner \<in> set (winners l) then winners l else winners l @ [winner])
              in
              (case map_of (participants l) winner of
                 None \<Rightarrow> Inl KeyError
               | Some d \<Rightarrow>
                   Inr (Some winner,
                        l\<lparr>winners := ws,
                          participants :=
                            AList.update winner (d\<lparr>wins := wins d + 1\<rparr>) (participants l)\<rparr>)))"

text \<open>What a caller sees of a draw: the winner, or the error raised.\<close>

definition winner_of :: "py_error + (string option \<times> PoWLottery) \<Rightarrow> py_error + string option" where
  "winner_of r = (case r of Inl e \<Rightarrow> Inl e | Inr (w, _) \<Rightarrow> Inr w)"


section \<open>consensus.py: voting on block proposals\<close>

record PoSValidator =
  validator_id :: string
  role :: string
  min_stake :: rat
  total_staked :: rat
  blocks_validated :: int
  slashing_count :: int

record pending_proposal =
  pending_data :: "(string \<times> string) list"
  pending_proposer :: string
  pending_votes :: "(string \<times> bool) list"
  pending_timestamp :: rat

record PoSConsensus =
  treasurer :: PoSValidator
  council :: "(string \<times> PoSValidator) list"
  min_council_approval :: int
  pending_proposals :: "string \<rightharpoonup> pending_proposal"

text \<open>\<open>PoSConsensus.vote_on_proposal\<close>: the returned flag and the consensus layer afterwards.\<close>

definition PoSConsensus_vote_on_proposal ::
  "PoSConsensus \<Rightarrow> string \<Rightarrow> string \<Rightarrow> bool \<Rightarrow> bool \<times> PoSConsensus" where
  "PoSConsensus_vote_on_proposal c block_hash voter_id vote =
     (case pending_proposals c block_hash of
        None \<Rightarrow> (False, c)
      | Some pp \<Rightarrow>
          if voter_id \<notin> fst ` set (council c) \<and> voter_id \<noteq> validator_id (treasurer c)
          then (False, c)
          else (True,
                c\<lparr>pending_proposals := (pending_proposals c)(block_hash \<mapsto>
                    pp\<lparr>pending_votes := AList.update voter_id vote (pending_votes pp)\<rparr>)\<rparr>))"

section \<open>governance.py: proposals and the council\<close>

datatype ProposalType =
  REWARD_ADJUSTMENT | DIFFICULTY_TUNING | PARAMETER_CHANGE | TREASURY_SPENDING
  | VALIDATOR_REMOVAL | STORAGE_REQUIREMENT

datatype ProposalStatus = PROPOSED | VOTING | APPROVED | REJECTED | EXECUTED | EXPIRED

datatype py_value = PyNum rat | PyStr string

record Proposal =
  proposal_id :: string
  proposal_type :: ProposalType
  proposer :: string
  description :: string
  proposed_changes :: "(string \<times> py_value) list"
  proposal_timestamp :: rat
  voting_deadline :: rat
  status :: ProposalStatus
  votes :: "(string \<times> bool) list"
  execution_time :: "rat option"

definition is_voting_active :: "rat \<Rightarrow> Proposal \<Rightarrow> bool" where
  "is_voting_active now p = (now < voting_deadline p \<and> status p = VOTING)"

definition get_vote_count :: "Proposal \<Rightarrow> int \<times> int" where
  "get_vote_count p =
     (int (length (filter (\<lambda>(voter, v). v) (votes p))),
      int (length (filter (\<lambda>(voter, v). \<not> v) (votes p))))"

definition is_approved :: "Proposal \<Rightarrow> int \<Rightarrow> bool" where
  "is_approved p min_approval = (case get_vote_count p of (yes, no) \<Rightarrow> yes \<ge> min_approval)"

text \<open>
  The council. Its treasury, reward configuration and parameter history are the field
  \<open>books\<close>, of a type left open: voting touches them only through \<open>_execute_proposal\<close>,
  whose calls of \<open>_apply_reward_changes\<close>, \<open>_apply_treasury_spending\<close> and
  \<open>_apply_parameter_changes\<close> are the argument \<open>apply_changes\<close> below (given the proposal
  and the time). Change maps are taken to hold numbers where the source computes with them,
  so these calls raise nothing.
\<close>

record 'e GovernanceCouncil =
  treasurer_id :: string
  council_members :: "string list"
  proposals :: "string \<rightharpoonup> Proposal"
  proposal_counter :: nat
  books :: 'e

text \<open>\<open>GovernanceCouncil.__init__\<close>: at most five members are kept.\<close>

definition GovernanceCouncil_init :: "string \<Rightarrow> string list \<Rightarrow> 'e \<Rightarrow> 'e GovernanceCouncil" where
  "GovernanceCouncil_init treasurer_name members initial_books =
     \<lparr>treasurer_id = treasurer_name, council_members = take 5 members, proposals = Map.empty,
      proposal_counter = 0, books = initial_books\<rparr>"

text \<open>Decimal digits of a number, and the id format \<open>f"PROP_{n:06d}"\<close>.\<close>

function decimal :: "nat \<Rightarrow> string" where
  "decimal n =
     (if n < 10 then [char_of (48 + n)] else decimal (n div 10) @ [char_of (48 + n mod 10)])"
  by pat_completeness auto
termination
  by (relation "measure (\<lambda>n. n)") simp_all

definition format_proposal_id :: "nat \<Rightarrow> string" where
  "format_proposal_id n =
     ''PROP_'' @ replicate (6 - length (decimal n)) (CHR ''0'') @ decimal n"

definition create_proposal ::
  "rat \<Rightarrow> 'e GovernanceCouncil \<Rightarrow> ProposalType \<Rightarrow> string \<Rightarrow> (string \<times> py_value) list \<Rightarrow> int \<Rightarrow>
   string \<times> 'e GovernanceCouncil" where
  "create_proposal now g ptype descr changes voting_period_hours =
     (let counter = proposal_counter g + 1;
          pid = format_proposal_id counter;
          proposal =
            \<lparr>proposal_id = pid, proposal_type = ptype, proposer = treasurer_id g,
             description = descr, proposed_changes = changes, proposal_timestamp = now,
             voting_deadline = now + of_int (voting_period_hours * 3600),
             status = VOTING, votes = [], execution_time = None\<rparr>
      in (pid, g\<lparr>proposal_counter := counter, proposals := (proposals g)(pid \<mapsto> proposal)\<rparr>))"

text \<open>\<open>_execute_proposal\<close>, for a proposal that \<open>_finalize_proposal\<close> has just approved.\<close>

definition execute_proposal ::
  "(Proposal \<Rightarrow> rat \<Rightarrow> 'e \<Rightarrow> 'e) \<Rightarrow> rat \<Rightarrow> 'e GovernanceCouncil \<Rightarrow> string \<Rightarrow> 'e GovernanceCouncil" where
  "execute_proposal apply_changes now g pid =
     (case proposals g pid of
        None \<Rightarrow> g
      | Some proposal \<Rightarrow>
          let p1 = proposal\<lparr>execution_time := Some now\<rparr>;
              books1 =
                (if proposal_type p1 = REWARD_ADJUSTMENT \<or> proposal_type p1 = TREASURY_SPENDING
                    \<or> proposal_type p1 = PARAMETER_CHANGE
                 then apply_changes p1 now (books g) else books g)
          in g\<lparr>books := books1, proposals := (proposals g)(pid \<mapsto> p1\<lparr>status := EXECUTED\<rparr>)\<rparr>)"

definition finalize_proposal ::
  "(Proposal \<Rightarrow> rat \<Rightarrow> 'e \<Rightarrow> 'e) \<Rightarrow> rat \<Rightarrow> 'e GovernanceCouncil \<Rightarrow> string \<Rightarrow> 'e GovernanceCouncil" where
  "finalize_proposal apply_changes now g pid =
     (case proposals g pid of
        None \<Rightarrow> g
      | Some proposal \<Rightarrow>
          if is_approved proposal 3
          then execute_proposal apply_changes now
                 (g\<lparr>proposals := (proposals g)(pid \<mapsto> proposal\<lparr>status := APPROVED\<rparr>)\<rparr>) pid
          else g\<lparr>proposals := (proposals g)(pid \<mapsto> proposal\<lparr>status := REJECTED\<rparr>)\<rparr>)"

text \<open>
  \<open>GovernanceCouncil.vote_on_proposal\<close>: the returned flag and the council afterwards.
  \<open>len(proposal.votes)\<close> is the length of the association list.
\<close>

definition vote_on_proposal ::
  "(Proposal \<Rightarrow> rat \<Rightarrow> 'e \<Rightarrow> 'e) \<Rightarrow> rat \<Rightarrow> 'e GovernanceCouncil \<Rightarrow> string \<Rightarrow> string \<Rightarrow> bool \<Rightarrow>
   bool \<times> 'e GovernanceCouncil" where
  "vote_on_proposal apply_changes now g pid voter_id vote =
     (case proposals g pid of
        None \<Rightarrow> (False, g)
      | Some proposal \<Rightarrow>
          if voter_id \<notin> set (council_members g) then (False, g)
          else if \<not> is_voting_active now proposal then (False, g)
          else
            let p1 = proposal\<lparr>votes := AList.update voter_id vote (votes proposal)\<rparr>;
                g1 = g\<lparr>proposals := (proposals g)(pid \<mapsto> p1)\<rparr>
            in if length (votes p1) \<ge> length (council_members g)
               then (True, finalize_proposal apply_changes now g1 pid)
               else (True, g1))"

text \<open>A run of votes, each with the time it is cast at; the flags are dropped.\<close>

fun cast_votes ::
  "(Proposal \<Rightarrow> rat \<Rightarrow> 'e \<Rightarrow> 'e) \<Rightarrow> 'e GovernanceCouncil \<Rightarrow> string \<Rightarrow> (rat \<times> string \<times> bool) list \<Rightarrow>
   'e GovernanceCouncil" where
  "cast_votes apply_changes g pid [] = g"
| "cast_votes apply_changes g pid ((now, voter_id, vote) # rest) =
     cast_votes apply_changes (snd (vote_on_proposal apply_changes now g pid voter_id vote)) pid rest"

text \<open>
  Vocabulary for runs of votes: the voters of a run, whether every vote of the run is cast
  before a deadline, and the number of \<open>True\<close> values in a \<open>votes\<close> dict.
\<close>

definition voters_of :: "(rat \<times> string \<times> bool) list \<Rightarrow> string list" where
  "voters_of vs = map (\<lambda>(now, voter_id, vote). voter_id) vs"

definition cast_before :: "rat \<Rightarrow> (rat \<times> string \<times> bool) list \<Rightarrow> bool" where
  "cast_before deadline vs = list_all (\<lambda>(now, voter_id, vote). now < deadline) vs"

definition yes_votes :: "(string \<times> bool) list \<Rightarrow> nat" where
  "yes_votes vs = length (filter (\<lambda>(voter, v). v) vs)"

section \<open>network.py: messages and the gossip layer\<close>

datatype MessageType =
  PEER_HELLO | PEER_DISCOVERY | BLOCK_ANNOUNCE | BLOCK_REQUEST | BLOCK_RESPONSE | TRANSACTION
  | SYNC_REQUEST | SYNC_RESPONSE | VOTE_MESSAGE | STORAGE_PLEDGE_MESSAGE | PING | PONG

record Message =
  message_id :: string
  message_type :: MessageType
  sender_id :: string
  message_timestamp :: rat
  payload :: "(string \<times> string) list"
  ttl :: int

text \<open>The dict \<open>data\<close> that \<open>Message.hash\<close> serialises: sender, type, timestamp, payload hash.\<close>

type_synonym message_data = "string \<times> MessageType \<times> rat \<times> string"

text \<open>
  \<open>Message.hash\<close>: \<open>dumps_payload\<close> is \<open>json.dumps(self.payload, sort_keys=True,
  default=str)\<close> and \<open>dumps_data\<close> is \<open>json.dumps(data, sort_keys=True)\<close>.
\<close>

definition message_hash ::
  "(string \<Rightarrow> string) \<Rightarrow> ((string \<times> string) list \<Rightarrow> string) \<Rightarrow> (message_data \<Rightarrow> string) \<Rightarrow>
   Message \<Rightarrow> string" where
  "message_hash sha dumps_payload dumps_data m =
     sha (dumps_data (sender_id m, message_type m, message_timestamp m,
                      sha (dumps_payload (payload m))))"

record GossipProtocol =
  max_fanout :: int
  message_history :: "string set"
  max_history :: int
  message_queue :: "Message list"

definition GossipProtocol_init :: "int \<Rightarrow> int \<Rightarrow> GossipProtocol" where
  "GossipProtocol_init fanout history_bound =
     \<lparr>max_fanout = fanout, message_history = {}, max_history = history_bound,
      message_queue = []\<rparr>"

definition should_propagate ::
  "(string \<Rightarrow> string) \<Rightarrow> ((string \<times> string) list \<Rightarrow> string) \<Rightarrow> (message_data \<Rightarrow> string) \<Rightarrow>
   GossipProtocol \<Rightarrow> Message \<Rightarrow> bool" where
  "should_propagate sha dumps_payload dumps_data g m =
     (let msg_hash = message_hash sha dumps_payload dumps_data m in
      if msg_hash \<in> message_history g then False
      else if ttl m \<le> 0 then False
      else True)"

text \<open>The Python slice \<open>xs[-n:]\<close>, for any integer \<open>n\<close>.\<close>

definition slice_from_minus :: "int \<Rightarrow> 'a list \<Rightarrow> 'a list" where
  "slice_from_minus n xs =
     (if n > 0 then drop (length xs - nat n) xs else drop (nat (- n)) xs)"

text \<open>
  \<open>GossipProtocol.add_to_history\<close>. \<open>listing s\<close> is \<open>list(s)\<close>, the elements of a Python
  set in its iteration order, which the language leaves open.
\<close>

definition add_to_history ::
  "(string \<Rightarrow> string) \<Rightarrow> ((string \<times> string) list \<Rightarrow> string) \<Rightarrow> (message_data \<Rightarrow> string) \<Rightarrow>
   (string set \<Rightarrow> string list) \<Rightarrow> GossipProtocol \<Rightarrow> Message \<Rightarrow> GossipProtocol" where
  "add_to_history sha dumps_payload dumps_data listing g m =
     (let msg_hash = message_hash sha dumps_payload dumps_data m;
          g1 = g\<lparr>message_history := insert msg_hash (message_history g)\<rparr>
      in if int (card (message_history g1)) > max_history g1
         then g1\<lparr>message_history :=
                   set (slice_from_minus (max_history g1) (listing (message_history g1)))\<rparr>
         else g1)"

definition add_message ::
  "(string \<Rightarrow> string) \<Rightarrow> ((string \<times> string) list \<Rightarrow> string) \<Rightarrow> (message_data \<Rightarrow> string) \<Rightarrow>
   (string set \<Rightarrow> string list) \<Rightarrow> GossipProtocol \<Rightarrow> Message \<Rightarrow> GossipProtocol" where
  "add_message sha dumps_payload dumps_data listing g m =
     (if should_propagate sha dumps_payload dumps_data g m
      then add_to_history sha dumps_payload dumps_data listing
             (g\<lparr>message_queue := message_queue g @ [m]\<rparr>) m
      else g)"

section \<open>Concrete instances\<close>

text \<open>
  Inputs on which the theorems below are exercised. The functions named \<open>demo_...\<close> stand
  in for \<open>hashlib\<close>, \<open>json\<close>, \<open>random\<close> and the iteration order of sets where a closed
  instance needs some function there; no general theorem depends on them.
\<close>

definition demo_sha :: "string \<Rightarrow> string" where
  "demo_sha s = s"



definition demo_choice :: "nat \<Rightarrow> string list \<Rightarrow> string" where
  "demo_choice seed pool = pool ! (seed mod length pool)"

definition plain_data :: tx_data where
  "plain_data = \<lparr>data_capacity_gb = None, data_proof_hash = None, data_other = []\<rparr>"

definition transfer_tx :: "string \<Rightarrow> string \<Rightarrow> string \<Rightarrow> rat \<Rightarrow> Transaction" where
  "transfer_tx tid src dst amt =
     \<lparr>tx_id = tid, tx_timestamp = 0, sender = src, receiver = dst, amount = amt,
      tx_type = TRANSFER, tx_nonce = 0, signature = None, data = plain_data\<rparr>"

definition stake_deposit_tx :: "string \<Rightarrow> string \<Rightarrow> rat \<Rightarrow> Transaction" where
  "stake_deposit_tx tid who amt =
     \<lparr>tx_id = tid, tx_timestamp = 0, sender = who, receiver = who, amount = amt,
      tx_type = STAKE_DEPOSIT, tx_nonce = 0, signature = None, data = plain_data\<rparr>"

definition storage_pledge_tx :: "string \<Rightarrow> string \<Rightarrow> rat \<Rightarrow> Transaction" where
  "storage_pledge_tx tid who cap =
     \<lparr>tx_id = tid, tx_timestamp = 0, sender = who, receiver = who, amount = 0,
      tx_type = STORAGE_PLEDGE, tx_nonce = 0, signature = None,
      data = plain_data\<lparr>data_capacity_gb := Some cap\<rparr>\<rparr>"


text \<open>
  Lotteries with the same pledges: two registered in opposite orders, one with tickets
  issued, and one after a draw.
\<close>

definition lottery_a :: PoWLottery where
  "lottery_a =
     register_participant
       (register_participant (PoWLottery_init 22) ''Farmer_John'' 256) ''Farmer_Maria'' 512"



definition lottery_a_drawn :: PoWLottery where
  "lottery_a_drawn =
     (case select_winner demo_sha demo_choice lottery_a ''1f'' 1 of
        Inr (w, l) \<Rightarrow> l
      | Inl e \<Rightarrow> lottery_a)"

text \<open>
  A council of five with the treasurer outside it, and one proposal open until time 86400;
  executing a proposal changes nothing in the books, which are left empty.
\<close>

definition no_changes :: "Proposal \<Rightarrow> rat \<Rightarrow> unit \<Rightarrow> unit" where
  "no_changes p now b = b"

definition demo_council :: "unit GovernanceCouncil" where
  "demo_council =
     snd (create_proposal 0
       (GovernanceCouncil_init ''TREASURER_Alice''
          [''COUNCIL_Bob'', ''COUNCIL_Charlie'', ''COUNCIL_Diana'', ''COUNCIL_Eve'',
           ''COUNCIL_Frank''] ())
       REWARD_ADJUSTMENT ''Increase PoC miner reward from 10 to 12 FCU''
       [(''poc_miner_reward'', PyNum 12)] 24)"

definition ballots_three_yes :: "(rat \<times> string \<times> bool) list" where
  "ballots_three_yes =
     [(100, ''COUNCIL_Bob'', True), (200, ''COUNCIL_Eve'', False), (300, ''COUNCIL_Charlie'', True),
      (400, ''COUNCIL_Frank'', False), (500, ''COUNCIL_Diana'', True)]"

definition ballots_two_yes :: "(rat \<times> string \<times> bool) list" where
  "ballots_two_yes =
     [(100, ''COUNCIL_Frank'', False), (200, ''COUNCIL_Bob'', True), (300, ''COUNCIL_Diana'', False),
      (400, ''COUNCIL_Eve'', True), (500, ''COUNCIL_Charlie'', False)]"

definition ballots_three_of_five :: "(rat \<times> string \<times> bool) list" where
  "ballots_three_of_five =
     [(100, ''COUNCIL_Bob'', True), (200, ''COUNCIL_Charlie'', True), (300, ''COUNCIL_Diana'', True)]"

definition demo_validator :: "string \<Rightarrow> string \<Rightarrow> PoSValidator" where
  "demo_validator who r =
     \<lparr>validator_id = who, role = r, min_stake = 10000, total_staked = 10000,
      blocks_validated = 0, slashing_count = 0\<rparr>"

definition demo_consensus :: PoSConsensus where
  "demo_consensus =
     \<lparr>treasurer = demo_validator ''TREASURER_Alice'' ''treasurer'',
      council = [(''COUNCIL_Bob'', demo_validator ''COUNCIL_Bob'' ''council'')],
      min_council_approval = 3,
      pending_proposals =
        [''block_1'' \<mapsto> \<lparr>pending_data = [], pending_proposer = ''TREASURER_Alice'',
                          pending_votes = [], pending_timestamp = 0\<rparr>]\<rparr>"

text \<open>
  Messages of two senders; a digest that keeps the sender and the payload apart from the
  hop count; and an iteration order for sets of these digests.
\<close>

definition demo_dumps_payload :: "(string \<times> string) list \<Rightarrow> string" where
  "demo_dumps_payload p = concat (map (\<lambda>(k, v). k @ ''='' @ v @ '';'') p)"

definition demo_dumps_message :: "message_data \<Rightarrow> string" where
  "demo_dumps_message d = (case d of (s, ty, ts, ph) \<Rightarrow> s @ '':'' @ ph)"

definition demo_listing :: "string set \<Rightarrow> string list" where
  "demo_listing s = filter (\<lambda>h. h \<in> s) [''Farmer_Maria:'', ''Farmer_John:'']"

definition block_message :: "string \<Rightarrow> int \<Rightarrow> Message" where
  "block_message who hops =
     \<lparr>message_id = ''blk_1'', message_type = BLOCK_ANNOUNCE, sender_id = who,
      message_timestamp = 0, payload = [], ttl = hops\<rparr>"

text \<open>A gossip layer that remembers one digest, after one message and after a second one.\<close>

definition gossip_1 :: GossipProtocol where
  "gossip_1 =
     add_message demo_sha demo_dumps_payload demo_dumps_message demo_listing
       (GossipProtocol_init 5 1) (block_message ''Farmer_John'' 64)"

definition gossip_2 :: GossipProtocol where
  "gossip_2 =
     add_message demo_sha demo_dumps_payload demo_dumps_message demo_listing
       gossip_1 (block_message ''Farmer_Maria'' 64)"

section \<open>The ledger: balances\<close>

lemma apply_transfer_nonneg:
  assumes "tx_type tx = TRANSFER" "0 \<le> amount tx" "\<And>a. 0 \<le> get_balance bc a"
  shows "0 \<le> get_balance (apply_transaction now bc tx) a"
  using assms(2) assms(3)[of a] assms(3)[of "sender tx"] assms(3)[of "receiver tx"]
  by (auto simp: apply_transaction_def assms(1) get_balance_def Let_def split: option.splits)

text \<open>
  Transfers alone keep the invariant: from balances that are all non-negative, any sequence
  of transfers with non-negative amounts leaves every balance non-negative.
\<close>

lemma transfers_keep_balances_nonneg:
  assumes "list_all (\<lambda>tx. tx_type tx = TRANSFER \<and> 0 \<le> amount tx) txs"
    and "\<And>a. 0 \<le> get_balance bc a"
  shows "0 \<le> get_balance (process_transactions now bc txs) a"
  using assms
proof (induction txs arbitrary: bc)
  case Nil
  then show ?case by simp
next
  case (Cons tx txs)
  have "\<And>a. 0 \<le> get_balance (apply_transaction now bc tx) a"
    using Cons.prems by (intro apply_transfer_nonneg) simp_all
  with Cons show ?case by simp
qed

text \<open>
  C1 (no sequence of admitted transactions drives a balance negative). The stake-deposit
  branch of \<open>process_transactions\<close> debits the sender without the balance check that the
  transfer branch makes. On the ledger after genesis, two stake deposits of 600,000 by the
  treasury (balance 1,000,000) are each admitted by \<open>add_transaction\<close>, which checks each
  against the unchanged balance; processing the pending pool leaves the treasury at
  -200,000.
\<close>

theorem stake_deposits_overdraw:
  "(let bc0 = Blockchain_init sha dumps_tx dumps_block now ''FCU_MAINNET'';
        d1 = stake_deposit_tx ''S1'' ''FCU_TREASURY'' 600000;
        d2 = stake_deposit_tx ''S2'' ''FCU_TREASURY'' 600000;
        (ok1, bc1) = add_transaction bc0 d1;
        (ok2, bc2) = add_transaction bc1 d2;
        bc3 = process_transactions now bc2 (pending_transactions bc2)
    in ok1 \<and> ok2 \<and> pending_transactions bc2 = [d1, d2] \<and>
       get_balance bc3 ''FCU_TREASURY'' = - 200000)"
  by (simp add: Blockchain_init_def Let_def add_transaction_def get_balance_def
      create_genesis_tx_def stake_deposit_tx_def apply_transaction_def)




section \<open>Storage pledges and lottery tickets\<close>

text \<open>
  C3 (a pledge below 32 GB is recorded as 32 GB; 512 GB gives 16 tickets, 10 GB gives 1).
  The ledger records the capacity of the transaction as it is: a pledge of 10 GB is stored
  with capacity 10, not 32 (32 is only the default when the transaction names no capacity).
  The lottery keeps the capacity 10 as well. The pledge is not rejected, and the ticket
  counts are as claimed. The floor of 32 GB is enforced elsewhere, in the constructor of a
  miner.
\<close>

theorem storage_pledge_not_clamped:
  "storage_pledges (process_transactions now bc [storage_pledge_tx ''P1'' ''Farmer_B'' 10])
       ''Farmer_B'' =
     Some \<lparr>pledger = ''Farmer_B'', capacity_gb = 10, pledge_timestamp = now, proof_hash = None,
           challenge_response = None, pledge_is_active = True\<rparr> \<and>
   map_of (participants (register_participant (PoWLottery_init 22) ''Farmer_B'' 10)) ''Farmer_B'' =
     Some \<lparr>storage_gb = 10, entries = 0, wins = 0, last_entry_block = 0\<rparr> \<and>
   fst (add_lottery_ticket (register_participant (PoWLottery_init 22) ''Farmer_B'' 10)
          ''Farmer_B'' 1) = 1 \<and>
   fst (add_lottery_ticket (register_participant (PoWLottery_init 22) ''Farmer_C'' 512)
          ''Farmer_C'' 1) = 16 \<and>
   storage_capacity_gb (PoCMiner_init now ''Farmer_B'' 10) = 32"
  by (simp add: storage_pledge_tx_def plain_data_def apply_transaction_def add_lottery_ticket_def
      register_participant_def PoWLottery_init_def tickets_for_def py_int_def PoCMiner_init_def)

section \<open>The lottery\<close>

text \<open>
  C10 (registering an id again resets its statistics). Whatever the record of the id was,
  after \<open>register_participant\<close> it holds the new capacity with \<open>entries = 0\<close>, \<open>wins = 0\<close>
  and \<open>last_entry_block = 0\<close>; the id keeps its place in the table (a new id goes last),
  and the list \<open>winners\<close> is not touched.
\<close>

theorem register_participant_resets:
  "map_of (participants (register_participant l p sg)) p =
      Some \<lparr>storage_gb = sg, entries = 0, wins = 0, last_entry_block = 0\<rparr> \<and>
   map fst (participants (register_participant l p sg)) =
      (if p \<in> fst ` set (participants l) then map fst (participants l)
       else map fst (participants l) @ [p]) \<and>
   winners (register_participant l p sg) = winners l"
  by (simp add: register_participant_def update_Some_unfold update_keys)

lemma participants_lottery_a:
  "participants lottery_a =
     [(''Farmer_John'', \<lparr>storage_gb = 256, entries = 0, wins = 0, last_entry_block = 0\<rparr>),
      (''Farmer_Maria'', \<lparr>storage_gb = 512, entries = 0, wins = 0, last_entry_block = 0\<rparr>)]"
  by (simp add: lottery_a_def register_participant_def PoWLottery_init_def)

lemma demo_seed: "int_base16 (take 16 (demo_sha ''1f'')) = Some 31"
  by (simp add: int_base16_def hex_digit_def demo_sha_def)

lemma pool_lottery_a:
  "build_pool (participants lottery_a) =
     replicate 8 ''Farmer_John'' @ replicate 16 ''Farmer_Maria''"
  by (simp add: participants_lottery_a build_pool_def tickets_for_def py_int_def)

lemma demo_choice_31:
  "demo_choice 31 (replicate 8 ''Farmer_John'' @ replicate 16 ''Farmer_Maria'') = ''Farmer_John''"
  by (simp add: demo_choice_def nth_append)


lemma participants_lottery_a_drawn:
  "participants lottery_a_drawn =
     [(''Farmer_John'', \<lparr>storage_gb = 256, entries = 0, wins = 1, last_entry_block = 0\<rparr>),
      (''Farmer_Maria'', \<lparr>storage_gb = 512, entries = 0, wins = 0, last_entry_block = 0\<rparr>)]"
  unfolding lottery_a_drawn_def
  apply (simp only: select_winner_def demo_seed pool_lottery_a Let_def demo_choice_31 option.case)
  apply (simp add: participants_lottery_a)
  done

text \<open>C10 on a participant with one win: registering \<open>Farmer_John\<close> again erases it.\<close>

theorem register_participant_resets_witness:
  "map_of (participants lottery_a_drawn) ''Farmer_John'' =
     Some \<lparr>storage_gb = 256, entries = 0, wins = 1, last_entry_block = 0\<rparr> \<and>
   map_of (participants (register_participant lottery_a_drawn ''Farmer_John'' 256)) ''Farmer_John'' =
     Some \<lparr>storage_gb = 256, entries = 0, wins = 0, last_entry_block = 0\<rparr>"
  using register_participant_resets [of lottery_a_drawn "''Farmer_John''" 256]
  by (simp add: participants_lottery_a_drawn)





lemma tickets_for_pos: "1 \<le> tickets_for c"
  by (simp add: tickets_for_def)

lemma build_pool_nonempty: "ps \<noteq> [] \<Longrightarrow> build_pool ps \<noteq> []"
proof (cases ps)
  case Nil
  then show "ps \<noteq> [] \<Longrightarrow> build_pool ps \<noteq> []" by simp
next
  case (Cons p rest)
  obtain k d where p: "p = (k, d)" by (cases p)
  have "0 < nat (tickets_for (storage_gb d))"
    using tickets_for_pos [of "storage_gb d"] by simp
  then show "build_pool ps \<noteq> []"
    by (simp add: Cons p build_pool_def)
qed

text \<open>
  What a draw returns: nothing for an empty table; otherwise the generator's choice, right
  after it is seeded with the number that the first 16 hex digits of the digest of the
  block hash denote, from the pool that lists every participant once per ticket in the
  order of the table.
\<close>

lemma winner_is_seeded_choice:
  "winner_of (select_winner sha choice l h n) =
     (if participants l = [] then Inr None
      else case int_base16 (take 16 (sha h)) of
             None \<Rightarrow> Inl ValueError
           | Some seed \<Rightarrow>
               if choice seed (build_pool (participants l)) \<in> fst ` set (participants l)
               then Inr (Some (choice seed (build_pool (participants l))))
               else Inl KeyError)"
proof (cases "participants l = []")
  case True
  then show ?thesis by (simp add: select_winner_def winner_of_def)
next
  case False
  then have pool: "build_pool (participants l) \<noteq> []"
    by (rule build_pool_nonempty)
  show ?thesis
  proof (cases "int_base16 (take 16 (sha h))")
    case None
    with False show ?thesis by (simp add: select_winner_def winner_of_def)
  next
    case seeded: (Some seed)
    show ?thesis
    proof (cases "map_of (participants l) (choice seed (build_pool (participants l)))")
      case None
      then have "choice seed (build_pool (participants l)) \<notin> fst ` set (participants l)"
        by (simp add: map_of_eq_None_iff)
      with None False seeded pool show ?thesis
        by (simp add: select_winner_def winner_of_def Let_def)
    next
      case (Some d)
      then have "choice seed (build_pool (participants l)) \<in> fst ` set (participants l)"
        by (metis map_of_eq_None_iff option.distinct(1))
      with Some False seeded pool show ?thesis
        by (simp add: select_winner_def winner_of_def Let_def)
    qed
  qed
qed










text \<open>
  This does not depend on the generator: \<open>random.choice\<close> picks a position of the pool, and
  whatever position a generator picks in a pool of two, the two orders of two participants
  with one ticket each give different winners.
\<close>

lemma insertion_order_matters_for_every_generator:
  assumes seed: "int_base16 (take 16 (sha h)) = Some seed"
    and two: "a \<noteq> b" and pos: "pick seed 2 < (2::nat)"
  shows "winner_of (select_winner sha (\<lambda>s pool. pool ! pick s (length pool))
           (register_participant (register_participant (PoWLottery_init 22) a 32) b 32) h n) \<noteq>
         winner_of (select_winner sha (\<lambda>s pool. pool ! pick s (length pool))
           (register_participant (register_participant (PoWLottery_init 22) b 32) a 32) h n)"
proof -
  have ab: "participants (register_participant (register_participant (PoWLottery_init 22) a 32) b 32) =
      [(a, \<lparr>storage_gb = 32, entries = 0, wins = 0, last_entry_block = 0\<rparr>),
       (b, \<lparr>storage_gb = 32, entries = 0, wins = 0, last_entry_block = 0\<rparr>)]"
    using two by (simp add: register_participant_def PoWLottery_init_def)
  have ba: "participants (register_participant (register_participant (PoWLottery_init 22) b 32) a 32) =
      [(b, \<lparr>storage_gb = 32, entries = 0, wins = 0, last_entry_block = 0\<rparr>),
       (a, \<lparr>storage_gb = 32, entries = 0, wins = 0, last_entry_block = 0\<rparr>)]"
    using two by (simp add: register_participant_def PoWLottery_init_def)
  have one: "nat (tickets_for 32) = Suc 0"
    by (simp add: tickets_for_def py_int_def)
  have pool_ab: "build_pool [(a, \<lparr>storage_gb = 32, entries = 0, wins = 0, last_entry_block = 0\<rparr>),
       (b, \<lparr>storage_gb = 32, entries = 0, wins = 0, last_entry_block = 0\<rparr>)] = [a, b]"
    by (simp add: build_pool_def one)
  have pool_ba: "build_pool [(b, \<lparr>storage_gb = 32, entries = 0, wins = 0, last_entry_block = 0\<rparr>),
       (a, \<lparr>storage_gb = 32, entries = 0, wins = 0, last_entry_block = 0\<rparr>)] = [b, a]"
    by (simp add: build_pool_def one)
  from pos have "pick seed (Suc (Suc 0)) = 0 \<or> pick seed (Suc (Suc 0)) = 1"
    by (auto simp: numeral_2_eq_2)
  then show ?thesis
  proof
    assume "pick seed (Suc (Suc 0)) = 0"
    then show ?thesis
      using two by (simp add: winner_is_seeded_choice seed ab ba pool_ab pool_ba)
  next
    assume "pick seed (Suc (Suc 0)) = 1"
    then show ?thesis
      using two by (simp add: winner_is_seeded_choice seed ab ba pool_ab pool_ba)
  qed
qed

section \<open>Difficulty control\<close>

text \<open>
  The two thresholds, computed in floats, are exactly 18 and 27 seconds; the block times
  11.25, 22.5 and 45 are doubles.
\<close>

lemma float_thresholds:
  "float_mul TARGET_BLOCK_TIME (float_literal (4 / 5)) = 18"
  "float_mul TARGET_BLOCK_TIME (float_literal (6 / 5)) = 27"
  by code_simp+

lemma exact_thresholds:
  "4 * TARGET_BLOCK_TIME / 5 = 18" "6 * TARGET_BLOCK_TIME / 5 = 27"
  "4 / 5 * TARGET_BLOCK_TIME = 18" "6 / 5 * TARGET_BLOCK_TIME = 27"
  by (simp_all add: TARGET_BLOCK_TIME_def)

lemma doubles_of_target:
  "round_double (45 / 4) = 45 / 4" "round_double (45 / 2) = 45 / 2" "round_double 45 = 45"
  by code_simp+

lemma float_div_exact_sum:
  "0 < n \<Longrightarrow> float_div (of_nat n * x) (of_nat n) = round_double x"
  by (simp add: float_div_def)

text \<open>
  C6 (the difficulty control loop), as the code has it. The rule is applied when at least
  two block times are given, to their mean as the code computes it: the float sum divided by
  the count, rounded. A mean below 0.8 times the target (18 seconds) gives the old
  difficulty plus 1, capped at 32; a mean above 1.2 times the target (27 seconds) gives the
  old difficulty minus 1, floored at 1; anything else leaves it unchanged. So block times
  all equal to half the target, whose sum the float summation gives exactly, raise a
  difficulty below 32 by one; block times all equal to twice the target lower a difficulty
  above 1 by one; block times all equal to the target change nothing. With fewer than two
  block times the difficulty is returned unchanged.
\<close>

theorem calculate_new_difficulty_control:
  "(2 \<le> length ts \<longrightarrow>
      calculate_new_difficulty float_sum d ts cap =
        (if float_div (float_sum ts) (of_nat (length ts)) < (8 / 10) * TARGET_BLOCK_TIME
         then min (d + 1) 32
         else if float_div (float_sum ts) (of_nat (length ts)) > (12 / 10) * TARGET_BLOCK_TIME
         then max (d - 1) 1
         else d)) \<and>
   (2 \<le> n \<and> float_sum (replicate n ((1 / 2) * TARGET_BLOCK_TIME)) =
        of_nat n * ((1 / 2) * TARGET_BLOCK_TIME) \<longrightarrow>
      calculate_new_difficulty float_sum d (replicate n ((1 / 2) * TARGET_BLOCK_TIME)) cap =
        min (d + 1) 32 \<and>
      (d < 32 \<longrightarrow>
         d < calculate_new_difficulty float_sum d (replicate n ((1 / 2) * TARGET_BLOCK_TIME)) cap)) \<and>
   (2 \<le> n \<and> float_sum (replicate n (2 * TARGET_BLOCK_TIME)) = of_nat n * (2 * TARGET_BLOCK_TIME) \<longrightarrow>
      calculate_new_difficulty float_sum d (replicate n (2 * TARGET_BLOCK_TIME)) cap =
        max (d - 1) 1 \<and>
      (1 < d \<longrightarrow>
         calculate_new_difficulty float_sum d (replicate n (2 * TARGET_BLOCK_TIME)) cap < d)) \<and>
   (2 \<le> n \<and> float_sum (replicate n TARGET_BLOCK_TIME) = of_nat n * TARGET_BLOCK_TIME \<longrightarrow>
      calculate_new_difficulty float_sum d (replicate n TARGET_BLOCK_TIME) cap = d) \<and>
   (length ts < 2 \<longrightarrow> calculate_new_difficulty float_sum d ts cap = d)"
proof -
  have general: "2 \<le> length ts \<longrightarrow>
      calculate_new_difficulty float_sum d ts cap =
        (if float_div (float_sum ts) (of_nat (length ts)) < (8 / 10) * TARGET_BLOCK_TIME
         then min (d + 1) 32
         else if float_div (float_sum ts) (of_nat (length ts)) > (12 / 10) * TARGET_BLOCK_TIME
         then max (d - 1) 1
         else d)"
    by (simp add: calculate_new_difficulty_def float_thresholds exact_thresholds Let_def)
  have equal: "calculate_new_difficulty float_sum d (replicate n x) cap =
        (if round_double x < 18 then min (d + 1) 32
         else if round_double x > 27 then max (d - 1) 1 else d)"
    if "2 \<le> n" "float_sum (replicate n x) = of_nat n * x" for x
    using that
    by (simp add: calculate_new_difficulty_def float_thresholds Let_def float_div_exact_sum)
  have few: "length ts < 2 \<longrightarrow> calculate_new_difficulty float_sum d ts cap = d"
    by (simp add: calculate_new_difficulty_def)
  have fast: "2 \<le> n \<and> float_sum (replicate n ((1 / 2) * TARGET_BLOCK_TIME)) =
        of_nat n * ((1 / 2) * TARGET_BLOCK_TIME) \<longrightarrow>
      calculate_new_difficulty float_sum d (replicate n ((1 / 2) * TARGET_BLOCK_TIME)) cap =
        min (d + 1) 32 \<and>
      (d < 32 \<longrightarrow>
         d < calculate_new_difficulty float_sum d (replicate n ((1 / 2) * TARGET_BLOCK_TIME)) cap)"
    using equal [of "45 / 4"] by (simp add: TARGET_BLOCK_TIME_def doubles_of_target)
  have slow: "2 \<le> n \<and> float_sum (replicate n (2 * TARGET_BLOCK_TIME)) =
        of_nat n * (2 * TARGET_BLOCK_TIME) \<longrightarrow>
      calculate_new_difficulty float_sum d (replicate n (2 * TARGET_BLOCK_TIME)) cap =
        max (d - 1) 1 \<and>
      (1 < d \<longrightarrow>
         calculate_new_difficulty float_sum d (replicate n (2 * TARGET_BLOCK_TIME)) cap < d)"
    using equal [of 45] by (simp add: TARGET_BLOCK_TIME_def doubles_of_target)
  have on_target: "2 \<le> n \<and> float_sum (replicate n TARGET_BLOCK_TIME) =
        of_nat n * TARGET_BLOCK_TIME \<longrightarrow>
      calculate_new_difficulty float_sum d (replicate n TARGET_BLOCK_TIME) cap = d"
    using equal [of "45 / 2"] by (simp add: TARGET_BLOCK_TIME_def doubles_of_target)
  from general fast slow on_target few show ?thesis
    by (intro conjI)
qed

text \<open>The left-to-right summation adds 50 equal block times of these three kinds exactly.\<close>

lemma left_to_right_sum_50:
  "left_to_right_sum (replicate 50 (45 / 4)) = 50 * (45 / 4)"
  "left_to_right_sum (replicate 50 45) = 50 * 45"
  "left_to_right_sum (replicate 50 (45 / 2)) = 50 * (45 / 2)"
  by code_simp+

text \<open>
  C6 at a window of 50 block times, summed from left to right, and difficulty 4 (and at the
  bounds 32 and 1).
\<close>

theorem calculate_new_difficulty_control_witness:
  "2 \<le> (50::nat) \<and>
   calculate_new_difficulty left_to_right_sum 4 (replicate 50 ((1 / 2) * TARGET_BLOCK_TIME)) 768 = 5 \<and>
   calculate_new_difficulty left_to_right_sum 4 (replicate 50 (2 * TARGET_BLOCK_TIME)) 768 = 3 \<and>
   calculate_new_difficulty left_to_right_sum 4 (replicate 50 TARGET_BLOCK_TIME) 768 = 4 \<and>
   calculate_new_difficulty left_to_right_sum 32 (replicate 50 ((1 / 2) * TARGET_BLOCK_TIME)) 768 = 32 \<and>
   calculate_new_difficulty left_to_right_sum 1 (replicate 50 (2 * TARGET_BLOCK_TIME)) 768 = 1"
  using calculate_new_difficulty_control
      [where float_sum = left_to_right_sum and d = 4 and cap = 768 and n = 50 and ts = "[]"]
    calculate_new_difficulty_control
      [where float_sum = left_to_right_sum and d = 32 and cap = 768 and n = 50 and ts = "[]"]
    calculate_new_difficulty_control
      [where float_sum = left_to_right_sum and d = 1 and cap = 768 and n = 50 and ts = "[]"]
  by (simp add: TARGET_BLOCK_TIME_def left_to_right_sum_50)

text \<open>The double just below 18 is \<open>18 - 2^-48\<close>, written 17.999999999999996.\<close>

definition below_18 :: rat where
  "below_18 = 18 - 1 / 2 ^ 48"

lemma rounded_sum_of_two:
  "round_double below_18 = below_18"
  "left_to_right_sum [18, below_18] = 36"
  "float_div 36 2 = 18"
  by code_simp+

lemma exact_mean_of_two: "sum_list [18, below_18] / of_nat (length [18, below_18]) < 18"
  by (simp add: below_18_def)

text \<open>
  The claim C6 as stated fails twice. A single block time of 10 seconds has a mean below 0.8
  times the target (18 seconds), yet difficulty 4 is returned unchanged and not raised to 5.
  And the two block times 18 and 17.999999999999996, both doubles, have a mean below 18
  seconds, but their float sum is rounded to 36, the computed mean is 18, and difficulty 4
  is again returned unchanged.
\<close>

theorem calculate_new_difficulty_single_sample:
  "sum_list [10 :: rat] / of_nat (length [10 :: rat]) < (8 / 10) * TARGET_BLOCK_TIME \<and>
   calculate_new_difficulty left_to_right_sum 4 [10] 768 \<noteq> min (4 + 1) 32 \<and>
   sum_list [18, below_18] / of_nat (length [18, below_18]) < (8 / 10) * TARGET_BLOCK_TIME \<and>
   round_double below_18 = below_18 \<and>
   calculate_new_difficulty left_to_right_sum 4 [18, below_18] 768 \<noteq> min (4 + 1) 32"
proof -
  have one: "sum_list [10 :: rat] / of_nat (length [10 :: rat]) < (8 / 10) * TARGET_BLOCK_TIME"
    by (simp add: TARGET_BLOCK_TIME_def)
  have one': "calculate_new_difficulty left_to_right_sum 4 [10] 768 \<noteq> min (4 + 1) 32"
    by (simp add: calculate_new_difficulty_def)
  have two: "sum_list [18, below_18] / of_nat (length [18, below_18])
      < (8 / 10) * TARGET_BLOCK_TIME"
    using exact_mean_of_two by (simp add: exact_thresholds)
  have "calculate_new_difficulty left_to_right_sum 4 [18, below_18] 768 = 4"
    unfolding calculate_new_difficulty_def Let_def
    by (simp add: rounded_sum_of_two float_thresholds)
  then have two': "calculate_new_difficulty left_to_right_sum 4 [18, below_18] 768
      \<noteq> min (4 + 1) 32"
    by simp
  from one one' two rounded_sum_of_two(1) two' show ?thesis
    by (intro conjI)
qed

section \<open>The chain: validation\<close>

lemma calculate_hash_ignores:
  "calculate_hash sha db (b\<lparr>transactions := txs\<rparr>) = calculate_hash sha db b"
  "calculate_hash sha db (b\<lparr>pow_lottery_winner := w\<rparr>) = calculate_hash sha db b"
  "calculate_hash sha db (b\<lparr>hash := h\<rparr>) = calculate_hash sha db b"
  by (simp_all add: calculate_hash_def block_data_of_def)

lemma Block_init_hash:
  "hash (Block_init sha dtx db idx prev ts txs mnr vals d w n mr sr) =
     calculate_hash sha db (Block_init sha dtx db idx prev ts txs mnr vals d w n mr sr)"
  "previous_hash (Block_init sha dtx db idx prev ts txs mnr vals d w n mr sr) = prev"
  by (simp_all add: Block_init_def Let_def calculate_hash_def block_data_of_def)

text \<open>The chain of a new ledger validates, and appending a block built on the tip keeps it valid.\<close>

lemma validate_chain_genesis:
  "validate_chain sha db (Blockchain_init sha dtx db now cid)"
  by (simp add: validate_chain_def Blockchain_init_def Let_def)

lemma block_ok_append:
  "i < length c \<Longrightarrow> block_ok sha db (c @ [b]) i = block_ok sha db c i"
  by (cases i) (simp_all add: block_ok_def nth_append)

lemma validate_chain_append:
  assumes "validate_chain sha db bc"
    and "append_mined_block sha dtx db bc now txs mnr d n = Inr bc'"
  shows "validate_chain sha db bc'"
proof -
  let ?c = "chain bc"
  let ?b = "Block_init sha dtx db (index (last ?c) + 1) (hash (last ?c)) now txs mnr [] d
              None n None None"
  have ne: "?c \<noteq> []" and bc': "bc' = bc\<lparr>chain := ?c @ [?b]\<rparr>"
    using assms(2)
    by (auto simp: append_mined_block_def get_latest_block_def Let_def split: if_splits)
  have old: "list_all (block_ok sha db (?c @ [?b])) [1..<length ?c]"
    using assms(1) by (simp add: validate_chain_def list_all_iff block_ok_append)
  have new: "block_ok sha db (?c @ [?b]) (length ?c)"
    using ne by (simp add: block_ok_def Block_init_hash nth_append last_conv_nth)
  have "length ?c \<ge> 1"
    using ne by (cases ?c) simp_all
  then have "[1..<length (?c @ [?b])] = [1..<length ?c] @ [length ?c]"
    by simp
  with old new show ?thesis
    by (simp add: validate_chain_def bc')
qed

text \<open>
  Replacing a stored block by one with the same stored hash, the same \<open>previous_hash\<close> and
  the same recomputed hash changes no check of \<open>validate_chain\<close>.
\<close>

lemma block_ok_tamper:
  assumes "hash b' = hash (c ! i)" "previous_hash b' = previous_hash (c ! i)"
    "calculate_hash sha db b' = calculate_hash sha db (c ! i)"
  shows "block_ok sha db (c[i := b']) = block_ok sha db c"
proof (rule ext)
  fix j
  show "block_ok sha db (c[i := b']) j = block_ok sha db c j"
  proof (cases "i < length c")
    case True
    then show ?thesis
      using assms by (simp add: block_ok_def nth_list_update)
  next
    case False
    then have "c[i := b'] = c"
      by (simp add: list_update_beyond)
    then show ?thesis by simp
  qed
qed

text \<open>
  So \<open>validate_chain\<close> gives the same verdict whatever is written into the transactions or
  the lottery winner of any stored block.
\<close>

lemma validate_chain_ignores_transactions:
  "validate_chain sha db
     (bc\<lparr>chain := (chain bc)[i := (chain bc ! i)\<lparr>transactions := txs\<rparr>]\<rparr>) =
   validate_chain sha db bc"
  "validate_chain sha db
     (bc\<lparr>chain := (chain bc)[i := (chain bc ! i)\<lparr>pow_lottery_winner := w\<rparr>]\<rparr>) =
   validate_chain sha db bc"
  by (simp_all add: validate_chain_def block_ok_tamper calculate_hash_ignores)

text \<open>
  C2 (changing a transaction of a stored block makes validation fail at that block).
  \<open>calculate_hash\<close> hashes the stored \<open>merkle_root\<close>, never the transactions, and
  \<open>validate_chain\<close> does not recompute the Merkle root. For every digest and serialisation:
  the chain of genesis plus one block mined on it with a transfer to \<open>Farmer_A\<close> validates;
  after the receiver of that stored transaction is changed to \<open>Mallory\<close>, the stored hash
  is what it was and the chain still validates.
\<close>

theorem tampered_block_passes_validation:
  "(case append_mined_block sha dtx db (Blockchain_init sha dtx db t0 ''FCU_MAINNET'') t1
           [transfer_tx ''T1'' ''FCU_TREASURY'' ''Farmer_A'' 500000] ''Farmer_John'' 4 7 of
      Inl e \<Rightarrow> False
    | Inr bc \<Rightarrow>
        let tampered = bc\<lparr>chain := (chain bc)[1 := (chain bc ! 1)\<lparr>transactions :=
                          [transfer_tx ''T1'' ''FCU_TREASURY'' ''Mallory'' 500000]\<rparr>]\<rparr>
        in validate_chain sha db bc \<and>
           transactions (chain bc ! 1) =
             [transfer_tx ''T1'' ''FCU_TREASURY'' ''Farmer_A'' 500000] \<and>
           transactions (chain tampered ! 1) =
             [transfer_tx ''T1'' ''FCU_TREASURY'' ''Mallory'' 500000] \<and>
           hash (chain tampered ! 1) = hash (chain bc ! 1) \<and>
           validate_chain sha db tampered)"
proof -
  let ?gen = "Blockchain_init sha dtx db t0 ''FCU_MAINNET''"
  let ?txs = "[transfer_tx ''T1'' ''FCU_TREASURY'' ''Farmer_A'' 500000]"
  obtain bc where bc: "append_mined_block sha dtx db ?gen t1 ?txs ''Farmer_John'' 4 7 = Inr bc"
    by (simp add: append_mined_block_def get_latest_block_def Blockchain_init_def Let_def)
  have v: "validate_chain sha db bc"
    using validate_chain_genesis bc by (rule validate_chain_append)
  have len: "length (chain bc) = 2"
    using bc
    by (auto simp: append_mined_block_def get_latest_block_def Blockchain_init_def Let_def)
  have tx: "transactions (chain bc ! 1) = ?txs"
    using bc
    by (auto simp: append_mined_block_def get_latest_block_def Blockchain_init_def Let_def
        Block_init_def)
  have upd: "(chain bc)[1 := b] ! 1 = b" for b
    using len by simp
  have ne: "chain bc \<noteq> []"
    using len by auto
  show ?thesis
    unfolding bc Let_def
    using v tx ne by (simp add: validate_chain_ignores_transactions upd del: One_nat_def)
qed

section \<open>Governance: who may vote\<close>

lemma format_first_id: "format_proposal_id (Suc 0) = ''PROP_000001''"
  by code_simp

lemma demo_council_fields:
  "treasurer_id demo_council = ''TREASURER_Alice''"
  "council_members demo_council =
     [''COUNCIL_Bob'', ''COUNCIL_Charlie'', ''COUNCIL_Diana'', ''COUNCIL_Eve'', ''COUNCIL_Frank'']"
  "proposals demo_council ''PROP_000001'' =
     Some \<lparr>proposal_id = ''PROP_000001'', proposal_type = REWARD_ADJUSTMENT,
           proposer = ''TREASURER_Alice'',
           description = ''Increase PoC miner reward from 10 to 12 FCU'',
           proposed_changes = [(''poc_miner_reward'', PyNum 12)], proposal_timestamp = 0,
           voting_deadline = 86400, status = VOTING, votes = [], execution_time = None\<rparr>"
  by (simp_all add: demo_council_def create_proposal_def GovernanceCouncil_init_def Let_def
      format_first_id)

text \<open>
  C8 (who may vote), as the code has it. \<open>GovernanceCouncil.vote_on_proposal\<close> succeeds
  exactly when the proposal exists, the voter is in the list of council members, the time is
  before the deadline and the status is still \<open>voting\<close>; the treasurer is not in that list
  and cannot vote. A failed vote changes nothing. The treasurer can vote only in
  \<open>PoSConsensus.vote_on_proposal\<close>, on block proposals, which succeeds exactly when the
  block proposal is pending and the voter is a council member or the treasurer; there is no
  voting window there.
\<close>

theorem vote_eligibility:
  "fst (vote_on_proposal apply_changes now g pid voter_id vote) =
     (case proposals g pid of
        None \<Rightarrow> False
      | Some p \<Rightarrow>
          voter_id \<in> set (council_members g) \<and> now < voting_deadline p \<and> status p = VOTING) \<and>
   (\<not> fst (vote_on_proposal apply_changes now g pid voter_id vote) \<longrightarrow>
      snd (vote_on_proposal apply_changes now g pid voter_id vote) = g) \<and>
   fst (PoSConsensus_vote_on_proposal c block_hash voter_id vote) =
     (pending_proposals c block_hash \<noteq> None \<and>
      (voter_id \<in> fst ` set (council c) \<or> voter_id = validator_id (treasurer c))) \<and>
   (\<not> fst (PoSConsensus_vote_on_proposal c block_hash voter_id vote) \<longrightarrow>
      snd (PoSConsensus_vote_on_proposal c block_hash voter_id vote) = c)"
  by (auto simp: vote_on_proposal_def PoSConsensus_vote_on_proposal_def is_voting_active_def
      Let_def split: option.splits)

text \<open>
  C8 on the council of five: before the deadline a council member's vote succeeds, the
  treasurer's vote fails and leaves the council as it was; on a pending block proposal the
  treasurer's vote succeeds.
\<close>

theorem vote_eligibility_witness:
  "fst (vote_on_proposal no_changes 100 demo_council ''PROP_000001'' ''COUNCIL_Bob'' True) \<and>
   \<not> fst (vote_on_proposal no_changes 100 demo_council ''PROP_000001'' ''TREASURER_Alice'' True) \<and>
   snd (vote_on_proposal no_changes 100 demo_council ''PROP_000001'' ''TREASURER_Alice'' True) =
     demo_council \<and>
   fst (PoSConsensus_vote_on_proposal demo_consensus ''block_1'' ''TREASURER_Alice'' True)"
  using vote_eligibility
      [of no_changes 100 demo_council "''PROP_000001''" "''COUNCIL_Bob''" True
          demo_consensus "''block_1''"]
    vote_eligibility
      [of no_changes 100 demo_council "''PROP_000001''" "''TREASURER_Alice''" True
          demo_consensus "''block_1''"]
  by (simp add: demo_council_fields demo_consensus_def demo_validator_def)

text \<open>
  The claim C8 as stated fails for the treasurer: the proposal exists and its voting window
  is open at time 100, yet the treasurer's vote is refused.
\<close>

theorem treasurer_vote_rejected:
  "treasurer_id demo_council = ''TREASURER_Alice'' \<and>
   (case proposals demo_council ''PROP_000001'' of
      None \<Rightarrow> False
    | Some p \<Rightarrow> is_voting_active 100 p) \<and>
   \<not> fst (vote_on_proposal no_changes 100 demo_council ''PROP_000001'' ''TREASURER_Alice'' True)"
  by (simp add: demo_council_fields vote_on_proposal_def is_voting_active_def)

section \<open>Governance: quorum\<close>

lemma update_fresh_key: "k \<notin> fst ` set al \<Longrightarrow> AList.update k v al = al @ [(k, v)]"
  by (induction al) auto

lemma voters_of_simps [simp]:
  "voters_of [] = []" "voters_of ((now, voter, v) # vs) = voter # voters_of vs"
  "length (voters_of vs) = length vs"
  by (simp_all add: voters_of_def)

lemma cast_before_simps [simp]:
  "cast_before t [] = True"
  "cast_before t ((now, voter, v) # vs) = (now < t \<and> cast_before t vs)"
  by (simp_all add: cast_before_def)

lemma council_members_finalize [simp]:
  "council_members (finalize_proposal ac now g pid) = council_members g"
  by (simp add: finalize_proposal_def execute_proposal_def Let_def split: option.splits)

lemma council_members_vote [simp]:
  "council_members (snd (vote_on_proposal ac now g pid voter v)) = council_members g"
  by (simp add: vote_on_proposal_def Let_def split: option.splits)

lemma finalize_status:
  assumes "proposals g pid = Some p"
  shows "proposals (finalize_proposal ac now g pid) pid =
     Some (if 3 \<le> yes_votes (votes p)
           then p\<lparr>status := EXECUTED, execution_time := Some now\<rparr>
           else p\<lparr>status := REJECTED\<rparr>)"
  using assms
  by (simp add: finalize_proposal_def execute_proposal_def is_approved_def get_vote_count_def
      yes_votes_def Let_def)

lemma vote_step:
  assumes "proposals g pid = Some p" "status p = VOTING" "now < voting_deadline p"
    and "voter \<in> set (council_members g)" "voter \<notin> fst ` set (votes p)"
  shows "proposals (snd (vote_on_proposal ac now g pid voter v)) pid =
     Some (let p1 = p\<lparr>votes := votes p @ [(voter, v)]\<rparr> in
           if length (votes p1) < length (council_members g) then p1
           else if 3 \<le> yes_votes (votes p1)
                then p1\<lparr>status := EXECUTED, execution_time := Some now\<rparr>
                else p1\<lparr>status := REJECTED\<rparr>)"
  using assms
  by (simp add: vote_on_proposal_def is_voting_active_def Let_def update_fresh_key finalize_status)

lemma cast_votes_run:
  assumes "proposals g pid = Some p" "status p = VOTING"
    and "distinct (voters_of vs)"
    and "set (voters_of vs) \<subseteq> set (council_members g)"
    and "set (voters_of vs) \<inter> fst ` set (votes p) = {}"
    and "cast_before (voting_deadline p) vs"
    and "length (votes p) + length vs \<le> length (council_members g)"
  shows "\<exists>p'. proposals (cast_votes ac g pid vs) pid = Some p' \<and>
           votes p' = votes p @ map snd vs \<and>
           status p' =
             (if vs = [] \<or> length (votes p) + length vs < length (council_members g) then VOTING
              else if 3 \<le> yes_votes (votes p @ map snd vs) then EXECUTED else REJECTED)"
  using assms
proof (induction vs arbitrary: g p)
  case Nil
  then show ?case by simp
next
  case (Cons x vs)
  obtain now voter v where x: "x = (now, voter, v)" by (cases x)
  let ?after = "snd (vote_on_proposal ac now g pid voter v)"
  let ?p1 = "p\<lparr>votes := votes p @ [(voter, v)]\<rparr>"
  have step: "proposals ?after pid =
     Some (if length (votes ?p1) < length (council_members g) then ?p1
           else if 3 \<le> yes_votes (votes ?p1)
                then ?p1\<lparr>status := EXECUTED, execution_time := Some now\<rparr>
                else ?p1\<lparr>status := REJECTED\<rparr>)"
    using vote_step [of g pid p now voter ac v] Cons.prems x by (simp add: Let_def)
  show ?case
  proof (cases "length (votes ?p1) < length (council_members g)")
    case True
    have "\<exists>p'. proposals (cast_votes ac ?after pid vs) pid = Some p' \<and>
           votes p' = votes ?p1 @ map snd vs \<and>
           status p' =
             (if vs = [] \<or> length (votes ?p1) + length vs < length (council_members ?after)
              then VOTING
              else if 3 \<le> yes_votes (votes ?p1 @ map snd vs) then EXECUTED else REJECTED)"
    proof (rule Cons.IH)
      show "proposals ?after pid = Some ?p1" using step True by simp
      show "status ?p1 = VOTING" using Cons.prems x by simp
      show "distinct (voters_of vs)" using Cons.prems x by simp
      show "set (voters_of vs) \<subseteq> set (council_members ?after)"
        using Cons.prems x by simp
      show "set (voters_of vs) \<inter> fst ` set (votes ?p1) = {}"
        using Cons.prems x by auto
      show "cast_before (voting_deadline ?p1) vs" using Cons.prems x by simp
      show "length (votes ?p1) + length vs \<le> length (council_members ?after)"
        using Cons.prems x by simp
    qed
    with True x show ?thesis by auto
  next
    case False
    have "Suc (length (votes p) + length vs) \<le> length (council_members g)"
      using Cons.prems(7) by simp
    moreover have "length (council_members g) \<le> Suc (length (votes p))"
      using False by simp
    ultimately have "length vs = 0" by linarith
    then have "vs = []" by simp
    with False step x show ?thesis by simp
  qed
qed

text \<open>
  C4 (quorum and immediate finalization), as the code has it. Take a council whose members
  are distinct, a proposal in status \<open>voting\<close> with no votes yet, and any run of votes
  by distinct council members, in any order, each cast before the deadline. While fewer
  votes than council members are recorded the status stays \<open>voting\<close>, even with three
  yes votes. With the vote of the last member the proposal is finalized at once: with at
  least three yes votes \<open>is_approved\<close> holds, the proposal is approved and executed in the
  same call, and its status is \<open>executed\<close>; with fewer (two, say) it is \<open>rejected\<close>.
\<close>

theorem council_quorum:
  assumes "proposals g pid = Some p" and "status p = VOTING" and "votes p = []"
    and "distinct (council_members g)"
    and "distinct (voters_of vs)"
    and "set (voters_of vs) \<subseteq> set (council_members g)"
    and "cast_before (voting_deadline p) vs"
  shows "case proposals (cast_votes ac g pid vs) pid of
           None \<Rightarrow> False
         | Some p' \<Rightarrow>
             votes p' = map snd vs \<and>
             is_approved p' 3 = (3 \<le> yes_votes (map snd vs)) \<and>
             status p' =
               (if vs = [] \<or> length vs < length (council_members g) then VOTING
                else if 3 \<le> yes_votes (map snd vs) then EXECUTED else REJECTED)"
proof -
  have "length vs = card (set (voters_of vs))"
    using assms(5) distinct_card [of "voters_of vs"] by simp
  also have "\<dots> \<le> card (set (council_members g))"
    using assms(6) by (intro card_mono) simp_all
  also have "\<dots> = length (council_members g)"
    using assms(4) by (rule distinct_card)
  finally have len: "length vs \<le> length (council_members g)" .
  obtain p' where p': "proposals (cast_votes ac g pid vs) pid = Some p'"
      "votes p' = votes p @ map snd vs"
      "status p' =
             (if vs = [] \<or> length (votes p) + length vs < length (council_members g) then VOTING
              else if 3 \<le> yes_votes (votes p @ map snd vs) then EXECUTED else REJECTED)"
    using cast_votes_run [of g pid p vs ac] assms len by auto
  then show ?thesis
    using assms(3) by (simp add: is_approved_def get_vote_count_def yes_votes_def)
qed

lemma get_vote_count_yes: "fst (get_vote_count p) = int (yes_votes (votes p))"
  by (simp add: get_vote_count_def yes_votes_def)

lemma demo_ballot_facts:
  "voters_of ballots_three_yes =
     [''COUNCIL_Bob'', ''COUNCIL_Eve'', ''COUNCIL_Charlie'', ''COUNCIL_Frank'', ''COUNCIL_Diana'']"
  "voters_of ballots_two_yes =
     [''COUNCIL_Frank'', ''COUNCIL_Bob'', ''COUNCIL_Diana'', ''COUNCIL_Eve'', ''COUNCIL_Charlie'']"
  "voters_of ballots_three_of_five = [''COUNCIL_Bob'', ''COUNCIL_Charlie'', ''COUNCIL_Diana'']"
  "cast_before 86400 ballots_three_yes" "cast_before 86400 ballots_two_yes"
  "cast_before 86400 ballots_three_of_five"
  "yes_votes (map snd ballots_three_yes) = 3" "yes_votes (map snd ballots_two_yes) = 2"
  "yes_votes (map snd ballots_three_of_five) = 3"
  "length ballots_three_yes = 5" "length ballots_two_yes = 5" "length ballots_three_of_five = 3"
  "ballots_three_yes \<noteq> []" "ballots_two_yes \<noteq> []" "ballots_three_of_five \<noteq> []"
  by (simp_all add: ballots_three_yes_def ballots_two_yes_def ballots_three_of_five_def
      yes_votes_def)

text \<open>
  C4 on the council of five: three yes and two no votes give \<open>executed\<close>, two yes and three
  no votes give \<open>rejected\<close>, three yes votes with two members still to vote leave \<open>voting\<close>.
\<close>

theorem council_quorum_witness:
  "(case proposals (cast_votes no_changes demo_council ''PROP_000001'' ballots_three_yes)
           ''PROP_000001'' of
      None \<Rightarrow> False
    | Some p' \<Rightarrow> is_approved p' 3 \<and> status p' = EXECUTED) \<and>
   (case proposals (cast_votes no_changes demo_council ''PROP_000001'' ballots_two_yes)
           ''PROP_000001'' of
      None \<Rightarrow> False
    | Some p' \<Rightarrow> \<not> is_approved p' 3 \<and> status p' = REJECTED) \<and>
   (case proposals (cast_votes no_changes demo_council ''PROP_000001'' ballots_three_of_five)
           ''PROP_000001'' of
      None \<Rightarrow> False
    | Some p' \<Rightarrow> is_approved p' 3 \<and> status p' = VOTING)"
  using council_quorum
      [of demo_council "''PROP_000001''" _ ballots_three_yes no_changes, OF demo_council_fields(3)]
    council_quorum
      [of demo_council "''PROP_000001''" _ ballots_two_yes no_changes, OF demo_council_fields(3)]
    council_quorum
      [of demo_council "''PROP_000001''" _ ballots_three_of_five no_changes, OF demo_council_fields(3)]
  by (simp add: demo_council_fields demo_ballot_facts split: option.splits)

text \<open>
  The claim C4 as stated fails: with exactly three yes votes the status is not \<open>approved\<close>,
  neither after all five members have voted (it is \<open>executed\<close>) nor while two members have
  not voted (it is still \<open>voting\<close>).
\<close>

theorem three_yes_votes_not_approved:
  "(case proposals (cast_votes no_changes demo_council ''PROP_000001'' ballots_three_yes)
           ''PROP_000001'' of
      None \<Rightarrow> False
    | Some p' \<Rightarrow> fst (get_vote_count p') = 3 \<and> status p' \<noteq> APPROVED) \<and>
   (case proposals (cast_votes no_changes demo_council ''PROP_000001'' ballots_three_of_five)
           ''PROP_000001'' of
      None \<Rightarrow> False
    | Some p' \<Rightarrow> fst (get_vote_count p') = 3 \<and> status p' \<noteq> APPROVED)"
  using cast_votes_run
      [of demo_council "''PROP_000001''" _ ballots_three_yes no_changes, OF demo_council_fields(3)]
    cast_votes_run
      [of demo_council "''PROP_000001''" _ ballots_three_of_five no_changes, OF demo_council_fields(3)]
  by (auto simp: demo_council_fields demo_ballot_facts get_vote_count_yes)

section \<open>Gossip: deduplication\<close>

lemma ttl_block_message [simp]: "ttl (block_message who hops) = hops"
  by (simp add: block_message_def)

lemma message_hash_ttl:
  "message_hash sha dp dd (m\<lparr>ttl := t\<rparr>) = message_hash sha dp dd m"
  "message_hash sha dp dd (m\<lparr>message_id := i\<rparr>) = message_hash sha dp dd m"
  by (simp_all add: message_hash_def)

text \<open>
  What holds of the deduplication. The digest of a message depends neither on its \<open>ttl\<close>
  nor on its id. A message with \<open>ttl \<le> 0\<close> is never propagated and changes nothing. A
  message that is new, has a positive \<open>ttl\<close> and whose digest fits into the bounded
  history is queued once; a second submission of it, with any \<open>ttl\<close> and any id, is
  dropped and changes nothing.
\<close>

lemma dedup_within_bound:
  "message_hash sha dp dd (m\<lparr>ttl := t, message_id := i\<rparr>) = message_hash sha dp dd m \<and>
   (ttl m \<le> 0 \<longrightarrow>
      \<not> should_propagate sha dp dd g m \<and> add_message sha dp dd listing g m = g) \<and>
   (message_hash sha dp dd m \<notin> message_history g \<and> 0 < ttl m \<and>
    int (card (insert (message_hash sha dp dd m) (message_history g))) \<le> max_history g \<longrightarrow>
      message_queue (add_message sha dp dd listing g m) = message_queue g @ [m] \<and>
      \<not> should_propagate sha dp dd (add_message sha dp dd listing g m)
          (m\<lparr>ttl := t, message_id := i\<rparr>) \<and>
      add_message sha dp dd listing (add_message sha dp dd listing g m)
          (m\<lparr>ttl := t, message_id := i\<rparr>) =
        add_message sha dp dd listing g m)"
  by (simp add: message_hash_def add_message_def should_propagate_def add_to_history_def Let_def)

lemma digest_of_John:
  "message_hash demo_sha demo_dumps_payload demo_dumps_message (block_message ''Farmer_John'' t) =
     ''Farmer_John:''"
  by (simp add: message_hash_def demo_sha_def demo_dumps_payload_def demo_dumps_message_def
      block_message_def)

lemma digest_of_Maria:
  "message_hash demo_sha demo_dumps_payload demo_dumps_message (block_message ''Farmer_Maria'' t) =
     ''Farmer_Maria:''"
  by (simp add: message_hash_def demo_sha_def demo_dumps_payload_def demo_dumps_message_def
      block_message_def)

lemma gossip_1_state:
  "gossip_1 =
     \<lparr>max_fanout = 5, message_history = {''Farmer_John:''}, max_history = 1,
      message_queue = [block_message ''Farmer_John'' 64]\<rparr>"
  by (simp add: gossip_1_def add_message_def should_propagate_def add_to_history_def Let_def
      digest_of_John GossipProtocol_init_def)

lemma gossip_2_state:
  "gossip_2 =
     \<lparr>max_fanout = 5, message_history = {''Farmer_John:''}, max_history = 1,
      message_queue = [block_message ''Farmer_John'' 64, block_message ''Farmer_Maria'' 64]\<rparr>"
  by (simp add: gossip_2_def gossip_1_state add_message_def should_propagate_def
      add_to_history_def Let_def digest_of_Maria digest_of_John demo_listing_def
      slice_from_minus_def)

text \<open>
  C9 (the same message submitted twice is propagated once). \<open>add_to_history\<close> bounds the
  history by keeping \<open>set(list(history)[-max_history:])\<close>: on overflow it drops whatever
  comes first in the set's iteration order, which can be the digest it has just recorded.
  Here the history has room for one digest and holds that of \<open>Farmer_John\<close>'s message;
  \<open>Farmer_Maria\<close>'s message is queued, its digest recorded and at once dropped again, so
  submitting \<open>Farmer_Maria\<close>'s message a second time queues it a second time.
\<close>

theorem evicted_message_propagates_twice:
  "message_queue gossip_2 = [block_message ''Farmer_John'' 64, block_message ''Farmer_Maria'' 64] \<and>
   message_history gossip_2 = {''Farmer_John:''} \<and>
   message_queue
     (add_message demo_sha demo_dumps_payload demo_dumps_message demo_listing gossip_2
        (block_message ''Farmer_Maria'' 64)) =
     [block_message ''Farmer_John'' 64, block_message ''Farmer_Maria'' 64,
      block_message ''Farmer_Maria'' 64]"
  by (simp add: gossip_2_state add_message_def should_propagate_def add_to_history_def Let_def
      digest_of_Maria)

lemma listing_two:
  assumes "set l = {a, b}" "distinct l" "a \<noteq> b"
  shows "l = [a, b] \<or> l = [b, a]"
proof -
  have "length l = 2"
    using assms distinct_card [of l] by simp
  then obtain x y where l: "l = [x, y]"
    by (cases l; cases "tl l") auto
  with assms show ?thesis by auto
qed

lemma add_message_overflow:
  assumes h: "message_hash sha dp dd m = h" and live: "0 < ttl m"
    and g: "message_history g = {k}" "max_history g = 1" and new: "h \<noteq> k"
    and l: "listing {h, k} = [x, y]"
  shows "add_message sha dp dd listing g m =
           g\<lparr>message_queue := message_queue g @ [m], message_history := {y}\<rparr>"
  using assms
  by (simp add: add_message_def should_propagate_def add_to_history_def Let_def slice_from_minus_def)

lemma add_message_seen:
  assumes "message_hash sha dp dd m \<in> message_history g"
  shows "add_message sha dp dd listing g m = g"
  using assms by (simp add: add_message_def should_propagate_def)

lemma add_message_first:
  assumes "0 < ttl m"
  shows "add_message sha dp dd listing (GossipProtocol_init f 1) m =
     \<lparr>max_fanout = f, message_history = {message_hash sha dp dd m}, max_history = 1, message_queue = [m]\<rparr>"
  using assms
  by (simp add: add_message_def should_propagate_def add_to_history_def Let_def GossipProtocol_init_def)

text \<open>
  The overflow does not depend on the iteration order: whatever order the set of two digests
  is listed in, with room for one digest the submissions \<open>m1, m2, m2, m1\<close> queue three
  messages, so one of the two is propagated twice.
\<close>

lemma overflow_repropagates_in_any_order:
  assumes enum: "set (listing {message_hash sha dp dd m1, message_hash sha dp dd m2}) =
                   {message_hash sha dp dd m1, message_hash sha dp dd m2}"
      "distinct (listing {message_hash sha dp dd m1, message_hash sha dp dd m2})"
    and diff: "message_hash sha dp dd m1 \<noteq> message_hash sha dp dd m2"
    and live: "0 < ttl m1" "0 < ttl m2"
  shows "length (message_queue
           (add_message sha dp dd listing
             (add_message sha dp dd listing
               (add_message sha dp dd listing
                 (add_message sha dp dd listing (GossipProtocol_init f 1) m1) m2) m2) m1)) = 3"
proof -
  let ?h1 = "message_hash sha dp dd m1" and ?h2 = "message_hash sha dp dd m2"
  let ?add = "add_message sha dp dd listing"
  let ?s1 = "?add (GossipProtocol_init f 1) m1"
  have s1: "?s1 = \<lparr>max_fanout = f, message_history = {?h1}, max_history = 1, message_queue = [m1]\<rparr>"
    using live(1) by (rule add_message_first)
  have sw: "{?h2, ?h1} = {?h1, ?h2}" by auto
  from listing_two [OF enum diff]
  show ?thesis
  proof
    assume l: "listing {?h1, ?h2} = [?h1, ?h2]"
    have s2: "?add ?s1 m2 = \<lparr>max_fanout = f, message_history = {?h2}, max_history = 1, message_queue = [m1, m2]\<rparr>"
      using add_message_overflow [of sha dp dd m2 ?h2 ?s1 ?h1 listing ?h1 ?h2] live diff l
      by (simp add: s1 sw)
    have s3: "?add (?add ?s1 m2) m2 = ?add ?s1 m2"
      by (rule add_message_seen) (simp add: s2)
    have s4: "?add (?add ?s1 m2) m1 = \<lparr>max_fanout = f, message_history = {?h2}, max_history = 1, message_queue = [m1, m2, m1]\<rparr>"
      using add_message_overflow [of sha dp dd m1 ?h1 "?add ?s1 m2" ?h2 listing ?h1 ?h2] live diff l
      by (simp add: s2)
    show ?thesis unfolding s3 by (simp add: s4)
  next
    assume l: "listing {?h1, ?h2} = [?h2, ?h1]"
    have s2: "?add ?s1 m2 = \<lparr>max_fanout = f, message_history = {?h1}, max_history = 1, message_queue = [m1, m2]\<rparr>"
      using add_message_overflow [of sha dp dd m2 ?h2 ?s1 ?h1 listing ?h2 ?h1] live diff l
      by (simp add: s1 sw)
    have s3: "?add (?add ?s1 m2) m2 = \<lparr>max_fanout = f, message_history = {?h1}, max_history = 1, message_queue = [m1, m2, m2]\<rparr>"
      using add_message_overflow [of sha dp dd m2 ?h2 "?add ?s1 m2" ?h1 listing ?h2 ?h1] live diff l
      by (simp add: s2 sw)
    have s4: "?add (?add (?add ?s1 m2) m2) m1 = ?add (?add ?s1 m2) m2"
      by (rule add_message_seen) (simp add: s3)
    show ?thesis unfolding s4 by (simp add: s3)
  qed
qed

end
